theory Spec2Isabelle
  imports Main
begin

section \<open>Account actions\<close>

text \<open>
  The four command objects of the account dialog (\<^verbatim>\<open>AddAccountAction\<close>,
  \<^verbatim>\<open>RemoveAccountAction\<close>, \<^verbatim>\<open>ApplyFilterAction\<close>, \<^verbatim>\<open>RefreshAccountAction\<close>).
  Each \<^verbatim>\<open>run()\<close> is a function of the action object and of the collaborating services;
  it returns how the promise it hands back ends, together with the list of the
  observable effects it caused, oldest first.  A private field \<^verbatim>\<open>_x\<close> of the source
  is written \<open>priv_x\<close>.
\<close>

subsection \<open>Promises, accounts, services\<close>

text \<open>
  How a promise ends.  Errors are the strings the add-account error emitter carries
  (\<^verbatim>\<open>Emitter<string>\<close>).  A promise that never settles is \<open>Pending\<close>: none of its
  handlers ever runs.
\<close>

datatype 'a promise = Resolved 'a | Rejected string | Pending

record AccountKey =
  providerId :: string
  accountId :: string

record AccountDisplayInfo =
  displayName :: string

record Account =
  key :: AccountKey
  displayInfo :: AccountDisplayInfo

datatype Severity = Ignore | Info | Warning | Error

record IConfirmation =
  message :: string
  primaryButton :: string
  secondaryButton :: string
  type :: string

text \<open>
  The injected services.  What each operation answers is a parameter of the model:
  every theorem below holds for all services.
\<close>

record IAccountManagementService =
  addAccount :: "string \<Rightarrow> unit promise"
  removeAccount :: "AccountKey \<Rightarrow> bool promise"
  refreshAccount :: "Account \<Rightarrow> unit promise"

record IDialogService =
  confirm :: "IConfirmation \<Rightarrow> bool promise"

text \<open>The effects of the actions, as an outside observer sees them.\<close>

datatype effect =
    FireAddAccountStart
  | FireAddAccountError string
  | FireAddAccountComplete
  | LogError string
  | CallAddAccount string
  | CallConfirm IConfirmation
  | CallRemoveAccount AccountKey
  | CallRefreshAccount Account
  | Notify Severity string

text \<open>The firings of the three emitters of the add-account action.\<close>

fun emitter_event :: "effect \<Rightarrow> bool" where
  "emitter_event FireAddAccountStart = True"
| "emitter_event (FireAddAccountError _) = True"
| "emitter_event FireAddAccountComplete = True"
| "emitter_event _ = False"

fun notification :: "effect \<Rightarrow> bool" where
  "notification (Notify _ _) = True"
| "notification _ = False"

fun removal :: "effect \<Rightarrow> bool" where
  "removal (CallRemoveAccount _) = True"
| "removal _ = False"

fun refreshing :: "effect \<Rightarrow> bool" where
  "refreshing (CallRefreshAccount _) = True"
| "refreshing _ = False"

subsection \<open>Localised messages\<close>

text \<open>
  Modelled from the spec: \<^verbatim>\<open>localize\<close> of \<^verbatim>\<open>vs/nls\<close> is not part of the sources at hand.
  The spec gives the messages as the literal default texts of the calls, with the
  display name inserted, so \<open>localize\<close> returns its default message with every
  placeholder \<^verbatim>\<open>{d}\<close> (one decimal digit) replaced by the argument of that index.
\<close>

definition is_digit :: "char \<Rightarrow> bool" where
  "is_digit c = ((of_char CHR ''0'' :: nat) \<le> of_char c \<and> (of_char c :: nat) \<le> of_char CHR ''9'')"

definition digit_val :: "char \<Rightarrow> nat" where
  "digit_val c = of_char c - of_char CHR ''0''"

fun nls_format :: "string \<Rightarrow> string list \<Rightarrow> string" where
  "nls_format (a # b # c # rest) args =
     (if a = CHR ''{'' \<and> c = CHR ''}'' \<and> is_digit b \<and> digit_val b < length args
      then args ! digit_val b @ nls_format rest args
      else a # nls_format (b # c # rest) args)"
| "nls_format s args = s"

definition localize :: "string \<Rightarrow> string \<Rightarrow> string list \<Rightarrow> string" where
  "localize k msg args = nls_format msg args"

subsection \<open>AddAccountAction\<close>

record AddAccountAction =
  priv_providerId :: string
  priv_accountManagementService :: IAccountManagementService

text \<open>
  \<^verbatim>\<open>run()\<close> fires the start event, then calls \<^verbatim>\<open>addAccount\<close>; the two handlers of
  \<^verbatim>\<open>then\<close> run once that promise has settled, the first on success, the second on
  failure.
\<close>

definition AddAccountAction_run :: "AddAccountAction \<Rightarrow> bool promise \<times> effect list" where
  "AddAccountAction_run self =
     (let started = [FireAddAccountStart, CallAddAccount (priv_providerId self)] in
      case addAccount (priv_accountManagementService self) (priv_providerId self) of
        Resolved _ \<Rightarrow> (Resolved True, started @ [FireAddAccountComplete])
      | Rejected err \<Rightarrow>
          (Rejected err,
           started @ [LogError (''Error while adding account: '' @ err),
                      FireAddAccountError err, FireAddAccountComplete])
      | Pending \<Rightarrow> (Pending, started))"

subsection \<open>RemoveAccountAction\<close>

text \<open>
  The notification service only receives \<^verbatim>\<open>notify\<close>, which answers nothing: the call
  is the effect \<open>Notify\<close>, and the action needs no field for the service.
\<close>

record RemoveAccountAction =
  priv_account :: Account
  priv_dialogService :: IDialogService
  priv_accountManagementService2 :: IAccountManagementService

definition removeConfirmation :: "Account \<Rightarrow> IConfirmation" where
  "removeConfirmation a =
     \<lparr> message = localize ''confirmRemoveUserAccountMessage''
                   ''Are you sure you want to remove '{0}'?'' [displayName (displayInfo a)],
       primaryButton = localize ''accountActions.yes'' ''Yes'' [],
       secondaryButton = localize ''accountActions.no'' ''No'' [],
       type = ''question'' \<rparr>"

text \<open>
  The outer \<^verbatim>\<open>then\<close> has no rejection handler: a rejected confirmation rejects the
  returned promise.  The inner \<^verbatim>\<open>then\<close> handles both ends of \<^verbatim>\<open>removeAccount\<close>.
\<close>

definition RemoveAccountAction_run :: "RemoveAccountAction \<Rightarrow> bool promise \<times> effect list" where
  "RemoveAccountAction_run self =
     (let c = removeConfirmation (priv_account self); asked = [CallConfirm c] in
      case confirm (priv_dialogService self) c of
        Pending \<Rightarrow> (Pending, asked)
      | Rejected err \<Rightarrow> (Rejected err, asked)
      | Resolved result \<Rightarrow>
          if \<not> result then (Resolved False, asked)
          else
            (let called = asked @ [CallRemoveAccount (key (priv_account self))] in
             case removeAccount (priv_accountManagementService2 self) (key (priv_account self)) of
               Resolved r \<Rightarrow> (Resolved r, called)
             | Rejected err \<Rightarrow>
                 (Resolved False, called @ [Notify Error (localize ''removeAccountFailed'' ''Failed to remove account'' [])])
             | Pending \<Rightarrow> (Pending, called)))"

subsection \<open>ApplyFilterAction\<close>

definition ApplyFilterAction_run :: "bool promise \<times> effect list" where
  "ApplyFilterAction_run = (Resolved True, [])"

subsection \<open>RefreshAccountAction\<close>

text \<open>
  The public field \<^verbatim>\<open>account\<close> is unassigned (\<open>None\<close>) until the caller sets it; an
  account is an object, so it is truthy exactly when assigned.
\<close>

record RefreshAccountAction =
  account :: "Account option"
  priv_accountManagementService3 :: IAccountManagementService

definition RefreshAccountAction_run :: "RefreshAccountAction \<Rightarrow> bool promise \<times> effect list" where
  "RefreshAccountAction_run self =
     (case account self of
        Some a \<Rightarrow>
          (let called = [CallRefreshAccount a] in
           case refreshAccount (priv_accountManagementService3 self) a of
             Resolved _ \<Rightarrow> (Resolved True, called)
           | Rejected err \<Rightarrow>
               (Rejected err, called @ [LogError (''Error while refreshing account: '' @ err)])
           | Pending \<Rightarrow> (Pending, called))
      | None \<Rightarrow>
          (let errorMessage = localize ''NoAccountToRefresh'' ''There is no account to refresh'' []
           in (Rejected errorMessage, [])))"

section \<open>The webview widget\<close>

text \<open>
  \<^verbatim>\<open>WebviewWidget\<close> owns one embedded content surface (a \<^verbatim>\<open>WebviewElement\<close>) and the
  subscription to its messages.  Surfaces and subscriptions are objects with identity:
  they are references, allocated from a counter.  Every call the widget makes on a
  collaborator is recorded, oldest first, in the \<open>effects\<close> of the world.
\<close>

subsection \<open>Data\<close>

type_synonym webview_ref = nat
type_synonym disposable_ref = nat
type_synonym element = string
type_synonym theme = string

datatype Parts = TITLEBAR_PART | ACTIVITYBAR_PART | SIDEBAR_PART | PANEL_PART
  | EDITOR_PART | STATUSBAR_PART

record WebviewOptions =
  allowScripts :: bool

text \<open>
  The options of a connection profile and the server info are mutable objects of the
  dashboard service.  The getters of the widget do not copy them: they keep and hand
  out the reference.  Such an object is therefore a reference into a store of the
  world, and a change made to the object in place is a change of the store.  The
  provider name and the id are strings, which the getter copies.  The field \<^verbatim>\<open>id\<close> of a
  connection profile is written \<open>profileId\<close>.
\<close>

type_synonym object_ref = nat
type_synonym options_object = "(string \<times> string) list"

record ConnectionProfile =
  providerName :: string
  profileId :: string
  options :: object_ref

record Connection =
  conn_providerName :: string
  connectionId :: string
  conn_options :: object_ref

datatype webview_effect =
    RegisterWebview string
  | CreateInstance webview_ref Parts WebviewOptions
  | MountTo webview_ref element
  | OnMessage webview_ref disposable_ref
  | Style webview_ref theme
  | SetContents webview_ref string
  | Layout webview_ref
  | SendMessage webview_ref string
  | DisposeWebview webview_ref
  | DisposeSubscription disposable_ref
  | FireOnMessage string

text \<open>
  The world around the widget: what the dashboard service, the theme service and the
  element reference answer now, the stores of the options objects and of the server
  info objects, the allocation counter of surfaces and subscriptions, and the effects
  so far.  The widget never looks into a server info, so the type \<open>'si\<close> of its
  contents is left open.
\<close>

record 'si world =
  connectionProfile :: ConnectionProfile
  connectionInfo_serverInfo :: object_ref
  options_store :: "object_ref \<rightharpoonup> options_object"
  serverInfo_store :: "object_ref \<rightharpoonup> 'si"
  currentTheme :: theme
  nativeElement :: element
  next_ref :: nat
  effects :: "webview_effect list"

text \<open>
  The widget.  \<^verbatim>\<open>_webview\<close>, \<^verbatim>\<open>_html\<close> and \<^verbatim>\<open>_onMessageDisposable\<close> are undefined
  (\<open>None\<close>) until assigned.  The two \<open>memoize_\<close> fields are the slots in which the
  \<^verbatim>\<open>@memoize\<close> decorator keeps the values of the getters \<^verbatim>\<open>connection\<close> and
  \<^verbatim>\<open>serverInfo\<close>.
\<close>

record WebviewWidget =
  priv_id :: string
  priv_webview :: "webview_ref option"
  priv_html :: "string option"
  priv_onMessageDisposable :: "disposable_ref option"
  memoize_connection :: "Connection option"
  memoize_serverInfo :: "object_ref option"

datatype error = TypeError string

definition WebviewWidget_new :: "string \<Rightarrow> WebviewWidget" where
  "WebviewWidget_new config_id =
     \<lparr> priv_id = config_id, priv_webview = None, priv_html = None,
       priv_onMessageDisposable = None, memoize_connection = None,
       memoize_serverInfo = None \<rparr>"

definition emit :: "webview_effect list \<Rightarrow> 'si world \<Rightarrow> 'si world" where
  "emit es \<sigma> = \<sigma>\<lparr>effects := effects \<sigma> @ es\<rparr>"

definition alloc :: "'si world \<Rightarrow> nat \<times> 'si world" where
  "alloc \<sigma> = (next_ref \<sigma>, \<sigma>\<lparr>next_ref := Suc (next_ref \<sigma>)\<rparr>)"

subsection \<open>Operations\<close>

definition get_id :: "WebviewWidget \<Rightarrow> string" where
  "get_id self = priv_id self"

definition setHtml ::
  "string \<Rightarrow> WebviewWidget \<Rightarrow> 'si world \<Rightarrow> error + WebviewWidget \<times> 'si world" where
  "setHtml html self \<sigma> =
     (let self1 = self\<lparr>priv_html := Some html\<rparr> in
      case priv_webview self1 of
        Some v \<Rightarrow> Inr (self1, emit [SetContents v html, Layout v] \<sigma>)
      | None \<Rightarrow> Inr (self1, \<sigma>))"

text \<open>
  Modelled from the spec: the \<^verbatim>\<open>@memoize\<close> decorator of \<^verbatim>\<open>vs/base/common/decorators\<close>
  is not part of the sources at hand.  The spec says the property is computed on first
  access and cached after it: the slot is read when filled, and filled with the
  getter's value otherwise.
\<close>

definition memoize ::
  "('w \<Rightarrow> 'a option) \<Rightarrow> ('a \<Rightarrow> 'w \<Rightarrow> 'w) \<Rightarrow> ('w \<Rightarrow> 's \<Rightarrow> 'a) \<Rightarrow> 'w \<Rightarrow> 's \<Rightarrow> 'a \<times> 'w" where
  "memoize slot store getter self \<sigma> =
     (case slot self of
        Some v \<Rightarrow> (v, self)
      | None \<Rightarrow> (let v = getter self \<sigma> in (v, store v self)))"

text \<open>
  The bodies of the two getters, as the source has them: \<^verbatim>\<open>connection\<close> builds a new
  object from the two strings of the current profile and the reference to its options
  object; \<^verbatim>\<open>serverInfo\<close> returns the reference to the current server info object.
\<close>

definition connection_getter :: "WebviewWidget \<Rightarrow> 'si world \<Rightarrow> Connection" where
  "connection_getter self \<sigma> =
     (let currentConnection = connectionProfile \<sigma>;
          connection = \<lparr> conn_providerName = providerName currentConnection,
                         connectionId = profileId currentConnection,
                         conn_options = options currentConnection \<rparr>
      in connection)"

definition serverInfo_getter :: "WebviewWidget \<Rightarrow> 'si world \<Rightarrow> object_ref" where
  "serverInfo_getter self \<sigma> = connectionInfo_serverInfo \<sigma>"

definition connection :: "WebviewWidget \<Rightarrow> 'si world \<Rightarrow> Connection \<times> WebviewWidget" where
  "connection =
     memoize memoize_connection (\<lambda>v w. w\<lparr>memoize_connection := Some v\<rparr>) connection_getter"

definition serverInfo :: "WebviewWidget \<Rightarrow> 'si world \<Rightarrow> object_ref \<times> WebviewWidget" where
  "serverInfo =
     memoize memoize_serverInfo (\<lambda>v w. w\<lparr>memoize_serverInfo := Some v\<rparr>) serverInfo_getter"

text \<open>\<^verbatim>\<open>layout()\<close> calls the surface unguarded: without one, the call throws.\<close>

definition layout ::
  "WebviewWidget \<Rightarrow> 'si world \<Rightarrow> error + WebviewWidget \<times> 'si world" where
  "layout self \<sigma> =
     (case priv_webview self of
        Some v \<Rightarrow> Inr (self, emit [Layout v] \<sigma>)
      | None \<Rightarrow> Inl (TypeError ''Cannot read property 'layout' of undefined''))"

definition sendMessage ::
  "string \<Rightarrow> WebviewWidget \<Rightarrow> 'si world \<Rightarrow> error + WebviewWidget \<times> 'si world" where
  "sendMessage msg self \<sigma> =
     (case priv_webview self of
        Some v \<Rightarrow> Inr (self, emit [SendMessage v msg] \<sigma>)
      | None \<Rightarrow> Inr (self, \<sigma>))"

text \<open>
  \<^verbatim>\<open>_createWebview()\<close>, statement by statement.  The test \<^verbatim>\<open>if (this._html)\<close> is on a
  string: it fails for the undefined field and for the empty string.
\<close>

definition priv_createWebview ::
  "WebviewWidget \<Rightarrow> 'si world \<Rightarrow> error + WebviewWidget \<times> 'si world" where
  "priv_createWebview self \<sigma> =
     (let \<sigma>1 = (case priv_webview self of
                  Some old \<Rightarrow> emit [DisposeWebview old] \<sigma> | None \<Rightarrow> \<sigma>);
          \<sigma>2 = (case priv_onMessageDisposable self of
                  Some old \<Rightarrow> emit [DisposeSubscription old] \<sigma>1 | None \<Rightarrow> \<sigma>1);
          (v, \<sigma>3) = alloc \<sigma>2;
          \<sigma>4 = emit [CreateInstance v EDITOR_PART \<lparr>allowScripts = True\<rparr>] \<sigma>3;
          self1 = self\<lparr>priv_webview := Some v\<rparr>;
          \<sigma>5 = emit [MountTo v (nativeElement \<sigma>4)] \<sigma>4;
          (d, \<sigma>6) = alloc \<sigma>5;
          \<sigma>7 = emit [OnMessage v d] \<sigma>6;
          self2 = self1\<lparr>priv_onMessageDisposable := Some d\<rparr>;
          \<sigma>8 = emit [Style v (currentTheme \<sigma>7)] \<sigma>7;
          \<sigma>9 = (case priv_html self2 of
                  Some html \<Rightarrow> if html \<noteq> [] then emit [SetContents v html] \<sigma>8 else \<sigma>8
                | None \<Rightarrow> \<sigma>8)
      in Inr (self2, emit [Layout v] \<sigma>9))"

definition ngOnInit ::
  "WebviewWidget \<Rightarrow> 'si world \<Rightarrow> error + WebviewWidget \<times> 'si world" where
  "ngOnInit self \<sigma> = priv_createWebview self (emit [RegisterWebview (get_id self)] \<sigma>)"

subsection \<open>Live surfaces and subscriptions\<close>

text \<open>
  What is alive after a history of effects: a surface from its creation to its
  disposal, a subscription (paired with the surface it listens to) from \<^verbatim>\<open>onMessage\<close>
  to the disposal of the handle \<^verbatim>\<open>onMessage\<close> returned.
\<close>

fun track_webview :: "webview_effect \<Rightarrow> webview_ref list \<Rightarrow> webview_ref list" where
  "track_webview (CreateInstance v _ _) live = live @ [v]"
| "track_webview (DisposeWebview v) live = removeAll v live"
| "track_webview _ live = live"

fun track_subscription ::
  "webview_effect \<Rightarrow> (disposable_ref \<times> webview_ref) list \<Rightarrow> (disposable_ref \<times> webview_ref) list" where
  "track_subscription (OnMessage v d) live = live @ [(d, v)]"
| "track_subscription (DisposeSubscription d) live = filter (\<lambda>p. fst p \<noteq> d) live"
| "track_subscription _ live = live"

definition live_webviews :: "webview_effect list \<Rightarrow> webview_ref list" where
  "live_webviews es = fold track_webview es []"

definition live_subscriptions :: "webview_effect list \<Rightarrow> (disposable_ref \<times> webview_ref) list" where
  "live_subscriptions es = fold track_subscription es []"

text \<open>
  Modelled from the spec: \<^verbatim>\<open>WebviewElement\<close> is not part of the sources at hand.  The
  spec gives \<^verbatim>\<open>onMessage(listener) -> subscription\<close>: a message posted by surface \<open>v\<close>
  runs every listener subscribed to \<open>v\<close> whose subscription is not disposed.  The only
  listener the widget ever registers is \<^verbatim>\<open>e => this._onMessage.fire(e)\<close>.
\<close>

definition webview_posts :: "webview_ref \<Rightarrow> string \<Rightarrow> 'si world \<Rightarrow> 'si world" where
  "webview_posts v e \<sigma> =
     emit (map (\<lambda>_. FireOnMessage e) (filter (\<lambda>p. snd p = v) (live_subscriptions (effects \<sigma>)))) \<sigma>"

fun option_list :: "'a option \<Rightarrow> 'a list" where
  "option_list None = []"
| "option_list (Some x) = [x]"

text \<open>
  The widget owns what is alive: the only live surface is the one in \<^verbatim>\<open>_webview\<close>, the
  only live subscription is the one in \<^verbatim>\<open>_onMessageDisposable\<close> and it listens to that
  surface, and both references were allocated before the counter's present value.
\<close>

definition owns :: "WebviewWidget \<Rightarrow> 'si world \<Rightarrow> bool" where
  "owns self \<sigma> \<longleftrightarrow>
     live_webviews (effects \<sigma>) = option_list (priv_webview self) \<and>
     map fst (live_subscriptions (effects \<sigma>)) = option_list (priv_onMessageDisposable self) \<and>
     map snd (live_subscriptions (effects \<sigma>)) = option_list (priv_webview self) \<and>
     list_all (\<lambda>r. r < next_ref \<sigma>)
       (option_list (priv_webview self) @ option_list (priv_onMessageDisposable self))"

text \<open>
  The creation sequence in the words of the spec: dispose the existing surface and
  message subscription if any, instantiate a new surface bound to the editor part with
  scripts allowed, mount it into the root node, subscribe to its messages, apply the
  current theme, reapply the cached HTML if present, lay out.  Here \<open>v\<close> is the new
  surface and \<open>d\<close> the new subscription.
\<close>

definition creation_sequence ::
  "WebviewWidget \<Rightarrow> 'si world \<Rightarrow> webview_ref \<Rightarrow> disposable_ref \<Rightarrow> webview_effect list" where
  "creation_sequence self \<sigma> v d =
     map DisposeWebview (option_list (priv_webview self)) @
     map DisposeSubscription (option_list (priv_onMessageDisposable self)) @
     [CreateInstance v EDITOR_PART \<lparr>allowScripts = True\<rparr>,
      MountTo v (nativeElement \<sigma>),
      OnMessage v d,
      Style v (currentTheme \<sigma>)] @
     map (SetContents v) (option_list (priv_html self)) @
     [Layout v]"

subsection \<open>Histories of calls\<close>

text \<open>
  Everything that can happen to a widget: the calls of its public contract, a
  re-creation of the surface, and the events of its surroundings (the dashboard
  service moves to another connection profile and server info, an options object or a
  server info object is changed in place, the theme changes, a surface posts a
  message).
\<close>

datatype 'si invocation =
    Do_ngOnInit
  | Do_setHtml string
  | Do_connection
  | Do_serverInfo
  | Do_layout
  | Do_sendMessage string
  | Do_createWebview
  | Env_connectionInfo ConnectionProfile object_ref
  | Env_optionsChanged object_ref options_object
  | Env_serverInfoChanged object_ref 'si
  | Env_theme theme
  | Env_posts webview_ref string

fun invoke ::
  "'si invocation \<Rightarrow> WebviewWidget \<Rightarrow> 'si world \<Rightarrow> error + WebviewWidget \<times> 'si world" where
  "invoke Do_ngOnInit self \<sigma> = ngOnInit self \<sigma>"
| "invoke (Do_setHtml html) self \<sigma> = setHtml html self \<sigma>"
| "invoke Do_connection self \<sigma> = Inr (snd (connection self \<sigma>), \<sigma>)"
| "invoke Do_serverInfo self \<sigma> = Inr (snd (serverInfo self \<sigma>), \<sigma>)"
| "invoke Do_layout self \<sigma> = layout self \<sigma>"
| "invoke (Do_sendMessage msg) self \<sigma> = sendMessage msg self \<sigma>"
| "invoke Do_createWebview self \<sigma> = priv_createWebview self \<sigma>"
| "invoke (Env_connectionInfo p si) self \<sigma> =
     Inr (self, \<sigma>\<lparr>connectionProfile := p, connectionInfo_serverInfo := si\<rparr>)"
| "invoke (Env_optionsChanged r opts) self \<sigma> =
     Inr (self, \<sigma>\<lparr>options_store := (options_store \<sigma>)(r \<mapsto> opts)\<rparr>)"
| "invoke (Env_serverInfoChanged r si) self \<sigma> =
     Inr (self, \<sigma>\<lparr>serverInfo_store := (serverInfo_store \<sigma>)(r \<mapsto> si)\<rparr>)"
| "invoke (Env_theme t) self \<sigma> = Inr (self, \<sigma>\<lparr>currentTheme := t\<rparr>)"
| "invoke (Env_posts v e) self \<sigma> = Inr (self, webview_posts v e \<sigma>)"

text \<open>A history stops at the first call that throws.\<close>

fun invoke_all ::
  "'si invocation list \<Rightarrow> WebviewWidget \<Rightarrow> 'si world \<Rightarrow> error + WebviewWidget \<times> 'si world" where
  "invoke_all [] self \<sigma> = Inr (self, \<sigma>)"
| "invoke_all (c # cs) self \<sigma> =
     (case invoke c self \<sigma> of
        Inl err \<Rightarrow> Inl err
      | Inr (self1, \<sigma>1) \<Rightarrow> invoke_all cs self1 \<sigma>1)"

text \<open>What a history leaves in the record of effects, or the error that stopped it.\<close>

definition outcome_effects ::
  "error + WebviewWidget \<times> 'si world \<Rightarrow> error + webview_effect list" where
  "outcome_effects r = (case r of Inl err \<Rightarrow> Inl err | Inr (self, \<sigma>) \<Rightarrow> Inr (effects \<sigma>))"

subsection \<open>Reading the cached properties\<close>

text \<open>
  What a caller sees when it reads through a connection object, or through a server
  info reference, in a given world: the two strings, and the present contents of the
  object referred to.
\<close>

definition connection_contents ::
  "'si world \<Rightarrow> Connection \<Rightarrow> string \<times> string \<times> options_object option" where
  "connection_contents \<sigma> c =
     (conn_providerName c, connectionId c, options_store \<sigma> (conn_options c))"

definition serverInfo_contents :: "'si world \<Rightarrow> object_ref \<Rightarrow> 'si option" where
  "serverInfo_contents \<sigma> r = serverInfo_store \<sigma> r"

text \<open>
  A property is read, a history of calls and events follows, the property is read
  again: what the caller saw at the first access, and what it sees at the second.
\<close>

definition connection_twice ::
  "'si invocation list \<Rightarrow> WebviewWidget \<Rightarrow> 'si world \<Rightarrow>
     error + (string \<times> string \<times> options_object option) \<times> (string \<times> string \<times> options_object option)" where
  "connection_twice cs self \<sigma> =
     (case invoke_all cs (snd (connection self \<sigma>)) \<sigma> of
        Inl err \<Rightarrow> Inl err
      | Inr (self2, \<sigma>2) \<Rightarrow>
          Inr (connection_contents \<sigma> (fst (connection self \<sigma>)),
               connection_contents \<sigma>2 (fst (connection self2 \<sigma>2))))"

definition serverInfo_twice ::
  "'si invocation list \<Rightarrow> WebviewWidget \<Rightarrow> 'si world \<Rightarrow> error + 'si option \<times> 'si option" where
  "serverInfo_twice cs self \<sigma> =
     (case invoke_all cs (snd (serverInfo self \<sigma>)) \<sigma> of
        Inl err \<Rightarrow> Inl err
      | Inr (self2, \<sigma>2) \<Rightarrow>
          Inr (serverInfo_contents \<sigma> (fst (serverInfo self \<sigma>)),
               serverInfo_contents \<sigma>2 (fst (serverInfo self2 \<sigma>2))))"

section \<open>Sample values\<close>

definition sample_account :: Account where
  "sample_account =
     \<lparr> key = \<lparr> providerId = ''azure'', accountId = ''a1'' \<rparr>,
       displayInfo = \<lparr> displayName = ''Bob'' \<rparr> \<rparr>"

definition sample_service ::
  "unit promise \<Rightarrow> bool promise \<Rightarrow> unit promise \<Rightarrow> IAccountManagementService" where
  "sample_service a r f =
     \<lparr> addAccount = (\<lambda>p. a), removeAccount = (\<lambda>k. r), refreshAccount = (\<lambda>acc. f) \<rparr>"

definition sample_dialog :: "bool promise \<Rightarrow> IDialogService" where
  "sample_dialog c = \<lparr> confirm = (\<lambda>q. c) \<rparr>"

definition sample_profile :: "string \<Rightarrow> object_ref \<Rightarrow> ConnectionProfile" where
  "sample_profile i r = \<lparr> providerName = ''MSSQL'', profileId = i, options = r \<rparr>"

definition sample_world :: "string world" where
  "sample_world =
     \<lparr> connectionProfile = sample_profile ''c1'' 10, connectionInfo_serverInfo = 20,
       options_store = [10 \<mapsto> [(''database'', ''master'')], 11 \<mapsto> [(''database'', ''sales'')]],
       serverInfo_store = [20 \<mapsto> ''v14'', 21 \<mapsto> ''v15''],
       currentTheme = ''dark'', nativeElement = ''div'', next_ref = 0, effects = [] \<rparr>"

definition sample_widget :: WebviewWidget where
  "sample_widget = WebviewWidget_new ''wid''"

text \<open>The new widget after \<^verbatim>\<open>setHtml("")\<close>.\<close>

definition sample_blank_widget :: WebviewWidget where
  "sample_blank_widget = sample_widget\<lparr>priv_html := Some ''''\<rparr>"

text \<open>A widget after \<^verbatim>\<open>setHtml("x")\<close> and \<^verbatim>\<open>ngOnInit()\<close>, and its world.\<close>

definition sample_live_widget :: "WebviewWidget" where
  "sample_live_widget =
     \<lparr> priv_id = ''wid'', priv_webview = Some 0, priv_html = Some ''x'',
       priv_onMessageDisposable = Some 1, memoize_connection = None,
       memoize_serverInfo = None \<rparr>"

definition sample_live_world :: "string world" where
  "sample_live_world =
     sample_world
       \<lparr> next_ref := 2,
         effects := [RegisterWebview ''wid'',
                     CreateInstance 0 EDITOR_PART \<lparr>allowScripts = True\<rparr>,
                     MountTo 0 ''div'', OnMessage 0 1, Style 0 ''dark'',
                     SetContents 0 ''x'', Layout 0] \<rparr>"

text \<open>
  A history in which the dashboard service moves to another connection and the
  options object of the first connection is changed in place, and the world it
  leaves.
\<close>

definition sample_history :: "string invocation list" where
  "sample_history =
     [Env_connectionInfo (sample_profile ''c2'' 11) 21,
      Env_optionsChanged 10 [(''database'', ''tempdb'')]]"

definition sample_moved_world :: "string world" where
  "sample_moved_world =
     sample_world
       \<lparr> connectionProfile := sample_profile ''c2'' 11,
         connectionInfo_serverInfo := 21,
         options_store := (options_store sample_world)(10 \<mapsto> [(''database'', ''tempdb'')]) \<rparr>"

section \<open>Properties of the account actions\<close>

text \<open>
  C1.  When \<^verbatim>\<open>addAccount\<close> fails with error \<open>E\<close>, \<^verbatim>\<open>AddAccountAction.run()\<close> fires the
  start event first, then (the failure being logged) the error event with payload \<open>E\<close>,
  then the complete event, and the promise it returns rejects with \<open>E\<close>.
\<close>

theorem AddAccountAction_run_failure:
  assumes "addAccount (priv_accountManagementService self) (priv_providerId self) = Rejected E"
  shows "AddAccountAction_run self =
           (Rejected E,
            [FireAddAccountStart, CallAddAccount (priv_providerId self),
             LogError (''Error while adding account: '' @ E),
             FireAddAccountError E, FireAddAccountComplete])
         \<and> filter emitter_event (snd (AddAccountAction_run self)) =
             [FireAddAccountStart, FireAddAccountError E, FireAddAccountComplete]"
  using assms by (simp add: AddAccountAction_run_def)

text \<open>The failing run on a service whose \<^verbatim>\<open>addAccount\<close> rejects with \<open>E\<close>.\<close>

theorem AddAccountAction_run_failure_witness:
  "AddAccountAction_run
     \<lparr> priv_providerId = ''azure'',
       priv_accountManagementService = sample_service (Rejected ''E'') Pending Pending \<rparr> =
     (Rejected ''E'',
      [FireAddAccountStart, CallAddAccount ''azure'', LogError ''Error while adding account: E'',
       FireAddAccountError ''E'', FireAddAccountComplete])"
  using AddAccountAction_run_failure
    [of "\<lparr> priv_providerId = ''azure'',
          priv_accountManagementService = sample_service (Rejected ''E'') Pending Pending \<rparr>" "''E''"]
  by (simp add: sample_service_def)

text \<open>
  C2.  When \<^verbatim>\<open>addAccount\<close> succeeds, \<^verbatim>\<open>AddAccountAction.run()\<close> fires exactly one start
  event and exactly one complete event, and the promise returned resolves \<open>true\<close>.  The
  start event comes before the call of \<^verbatim>\<open>addAccount\<close>, whatever the outcome.  The
  complete event waits for the settlement: while \<^verbatim>\<open>addAccount\<close> has not settled, the run
  has fired the start event and made the call and nothing else, and in general the
  complete event is fired exactly when \<^verbatim>\<open>addAccount\<close> settles, and then once.
\<close>

theorem AddAccountAction_run_success:
  "(addAccount (priv_accountManagementService self) (priv_providerId self) = Resolved u \<longrightarrow>
      AddAccountAction_run self =
        (Resolved True,
         [FireAddAccountStart, CallAddAccount (priv_providerId self), FireAddAccountComplete])
      \<and> count_list (snd (AddAccountAction_run self)) FireAddAccountStart = 1
      \<and> count_list (snd (AddAccountAction_run self)) FireAddAccountComplete = 1)
   \<and> (addAccount (priv_accountManagementService self) (priv_providerId self) = Pending \<longrightarrow>
      AddAccountAction_run self =
        (Pending, [FireAddAccountStart, CallAddAccount (priv_providerId self)]))
   \<and> count_list (snd (AddAccountAction_run self)) FireAddAccountComplete =
       (if addAccount (priv_accountManagementService self) (priv_providerId self) = Pending
        then 0 else 1)
   \<and> take 2 (snd (AddAccountAction_run self)) =
       [FireAddAccountStart, CallAddAccount (priv_providerId self)]"
  by (simp add: AddAccountAction_run_def Let_def split: promise.split)

text \<open>
  The run on a service whose \<^verbatim>\<open>addAccount\<close> resolves, and the run on a service whose
  \<^verbatim>\<open>addAccount\<close> has not settled.
\<close>

theorem AddAccountAction_run_success_witness:
  "AddAccountAction_run
     \<lparr> priv_providerId = ''azure'',
       priv_accountManagementService = sample_service (Resolved ()) Pending Pending \<rparr> =
     (Resolved True, [FireAddAccountStart, CallAddAccount ''azure'', FireAddAccountComplete])
   \<and> AddAccountAction_run
     \<lparr> priv_providerId = ''azure'',
       priv_accountManagementService = sample_service Pending Pending Pending \<rparr> =
     (Pending, [FireAddAccountStart, CallAddAccount ''azure''])"
  using AddAccountAction_run_success
    [of "\<lparr> priv_providerId = ''azure'',
          priv_accountManagementService = sample_service (Resolved ()) Pending Pending \<rparr>" "()"]
    AddAccountAction_run_success
    [of "\<lparr> priv_providerId = ''azure'',
          priv_accountManagementService = sample_service Pending Pending Pending \<rparr>" "()"]
  by (simp add: sample_service_def)

text \<open>
  C3.  When the dialog service resolves the confirmation to \<open>false\<close>,
  \<^verbatim>\<open>RemoveAccountAction.run()\<close> never calls \<^verbatim>\<open>removeAccount\<close> and the promise it returns
  resolves \<open>false\<close>.
\<close>

theorem RemoveAccountAction_run_declined:
  assumes "confirm (priv_dialogService self) (removeConfirmation (priv_account self)) = Resolved False"
  shows "RemoveAccountAction_run self =
           (Resolved False, [CallConfirm (removeConfirmation (priv_account self))])
         \<and> filter removal (snd (RemoveAccountAction_run self)) = []"
  using assms by (simp add: RemoveAccountAction_run_def)

text \<open>A declined removal, on a service that would have removed the account.\<close>

theorem RemoveAccountAction_run_declined_witness:
  "RemoveAccountAction_run
     \<lparr> priv_account = sample_account, priv_dialogService = sample_dialog (Resolved False),
       priv_accountManagementService2 = sample_service Pending (Resolved True) Pending \<rparr> =
     (Resolved False, [CallConfirm (removeConfirmation sample_account)])"
  using RemoveAccountAction_run_declined
    [of "\<lparr> priv_account = sample_account, priv_dialogService = sample_dialog (Resolved False),
          priv_accountManagementService2 = sample_service Pending (Resolved True) Pending \<rparr>"]
  by (simp add: sample_dialog_def)

text \<open>
  C4.  When the confirmation resolves to \<open>true\<close>: if \<^verbatim>\<open>removeAccount\<close> rejects, the
  promise of \<^verbatim>\<open>RemoveAccountAction.run()\<close> resolves \<open>false\<close> (it does not reject) and
  exactly one notification, of severity error, is issued; if \<^verbatim>\<open>removeAccount\<close> resolves
  with \<open>b\<close>, the promise resolves with \<open>b\<close>.
\<close>

theorem RemoveAccountAction_run_confirmed:
  assumes "confirm (priv_dialogService self) (removeConfirmation (priv_account self)) = Resolved True"
  shows "(removeAccount (priv_accountManagementService2 self) (key (priv_account self)) = Rejected err \<longrightarrow>
            RemoveAccountAction_run self =
              (Resolved False,
               [CallConfirm (removeConfirmation (priv_account self)),
                CallRemoveAccount (key (priv_account self)),
                Notify Error ''Failed to remove account''])
            \<and> length (filter notification (snd (RemoveAccountAction_run self))) = 1)
         \<and> (removeAccount (priv_accountManagementService2 self) (key (priv_account self)) = Resolved b \<longrightarrow>
            RemoveAccountAction_run self =
              (Resolved b,
               [CallConfirm (removeConfirmation (priv_account self)),
                CallRemoveAccount (key (priv_account self))]))"
  using assms by (simp add: RemoveAccountAction_run_def localize_def)

text \<open>A confirmed removal that fails, and one that succeeds.\<close>

theorem RemoveAccountAction_run_confirmed_witness:
  "RemoveAccountAction_run
     \<lparr> priv_account = sample_account, priv_dialogService = sample_dialog (Resolved True),
       priv_accountManagementService2 = sample_service Pending (Rejected ''boom'') Pending \<rparr> =
     (Resolved False,
      [CallConfirm (removeConfirmation sample_account), CallRemoveAccount (key sample_account),
       Notify Error ''Failed to remove account''])
   \<and> RemoveAccountAction_run
     \<lparr> priv_account = sample_account, priv_dialogService = sample_dialog (Resolved True),
       priv_accountManagementService2 = sample_service Pending (Resolved True) Pending \<rparr> =
     (Resolved True,
      [CallConfirm (removeConfirmation sample_account), CallRemoveAccount (key sample_account)])"
  using RemoveAccountAction_run_confirmed
    [of "\<lparr> priv_account = sample_account, priv_dialogService = sample_dialog (Resolved True),
          priv_accountManagementService2 = sample_service Pending (Rejected ''boom'') Pending \<rparr>"
        "''boom''"]
    RemoveAccountAction_run_confirmed
    [of "\<lparr> priv_account = sample_account, priv_dialogService = sample_dialog (Resolved True),
          priv_accountManagementService2 = sample_service Pending (Resolved True) Pending \<rparr>"
        _ True]
  by (simp add: sample_dialog_def sample_service_def)

text \<open>
  C5.  With no account assigned, \<^verbatim>\<open>RefreshAccountAction.run()\<close> rejects with the message
  \<^verbatim>\<open>There is no account to refresh\<close> and never calls \<^verbatim>\<open>refreshAccount\<close>.
\<close>

theorem RefreshAccountAction_run_no_account:
  assumes "account self = None"
  shows "RefreshAccountAction_run self = (Rejected ''There is no account to refresh'', [])
         \<and> filter refreshing (snd (RefreshAccountAction_run self)) = []"
  using assms by (simp add: RefreshAccountAction_run_def localize_def)

text \<open>A refresh action whose account was never set.\<close>

theorem RefreshAccountAction_run_no_account_witness:
  "RefreshAccountAction_run
     \<lparr> account = None,
       priv_accountManagementService3 = sample_service Pending Pending (Resolved ()) \<rparr> =
     (Rejected ''There is no account to refresh'', [])"
  using RefreshAccountAction_run_no_account
    [of "\<lparr> account = None,
          priv_accountManagementService3 = sample_service Pending Pending (Resolved ()) \<rparr>"]
  by simp

text \<open>
  C6.  With account \<open>a\<close> assigned, \<^verbatim>\<open>RefreshAccountAction.run()\<close> calls
  \<^verbatim>\<open>refreshAccount\<close> once, with \<open>a\<close>; if that succeeds the promise resolves \<open>true\<close>, if it
  fails the promise rejects with the error it failed with.
\<close>

theorem RefreshAccountAction_run_account:
  assumes "account self = Some a"
  shows "filter refreshing (snd (RefreshAccountAction_run self)) = [CallRefreshAccount a]
         \<and> (refreshAccount (priv_accountManagementService3 self) a = Resolved u \<longrightarrow>
              RefreshAccountAction_run self = (Resolved True, [CallRefreshAccount a]))
         \<and> (refreshAccount (priv_accountManagementService3 self) a = Rejected err \<longrightarrow>
              RefreshAccountAction_run self =
                (Rejected err,
                 [CallRefreshAccount a, LogError (''Error while refreshing account: '' @ err)]))"
  using assms by (simp add: RefreshAccountAction_run_def Let_def split: promise.split)

text \<open>A refresh that succeeds, and one that fails.\<close>

theorem RefreshAccountAction_run_account_witness:
  "RefreshAccountAction_run
     \<lparr> account = Some sample_account,
       priv_accountManagementService3 = sample_service Pending Pending (Resolved ()) \<rparr> =
     (Resolved True, [CallRefreshAccount sample_account])
   \<and> RefreshAccountAction_run
     \<lparr> account = Some sample_account,
       priv_accountManagementService3 = sample_service Pending Pending (Rejected ''expired'') \<rparr> =
     (Rejected ''expired'',
      [CallRefreshAccount sample_account, LogError ''Error while refreshing account: expired''])"
  using RefreshAccountAction_run_account
    [of "\<lparr> account = Some sample_account,
          priv_accountManagementService3 = sample_service Pending Pending (Resolved ()) \<rparr>"
        sample_account "()"]
    RefreshAccountAction_run_account
    [of "\<lparr> account = Some sample_account,
          priv_accountManagementService3 = sample_service Pending Pending (Rejected ''expired'') \<rparr>"
        sample_account _ "''expired''"]
  by (simp add: sample_service_def)

section \<open>Properties of the webview widget\<close>

subsection \<open>Auxiliary facts\<close>

lemma live_webviews_append:
  "live_webviews (es @ fs) = fold track_webview fs (live_webviews es)"
  by (simp add: live_webviews_def)

lemma live_subscriptions_append:
  "live_subscriptions (es @ fs) = fold track_subscription fs (live_subscriptions es)"
  by (simp add: live_subscriptions_def)

text \<open>\<^verbatim>\<open>_createWebview()\<close> in closed form.\<close>

lemma priv_createWebview_eq:
  "priv_createWebview self \<sigma> =
     Inr (self\<lparr>priv_webview := Some (next_ref \<sigma>),
               priv_onMessageDisposable := Some (Suc (next_ref \<sigma>))\<rparr>,
          \<sigma>\<lparr>next_ref := Suc (Suc (next_ref \<sigma>)),
            effects := effects \<sigma> @
              creation_sequence
                (if priv_html self = Some [] then self\<lparr>priv_html := None\<rparr> else self)
                \<sigma> (next_ref \<sigma>) (Suc (next_ref \<sigma>))\<rparr>)"
  by (cases "priv_webview self"; cases "priv_onMessageDisposable self"; cases "priv_html self")
     (simp_all add: priv_createWebview_def creation_sequence_def emit_def alloc_def Let_def)

lemma fold_track_webview_contents:
  "fold track_webview (map (SetContents v) hs) live = live"
  by (induction hs) simp_all

lemma fold_track_subscription_contents:
  "fold track_subscription (map (SetContents v) hs) live = live"
  by (induction hs) simp_all

text \<open>What is alive after a creation sequence.\<close>

lemma live_webviews_creation:
  assumes "live_webviews es = option_list (priv_webview self)"
  shows "live_webviews (es @ creation_sequence self \<sigma> v d) = [v]"
  using assms
  by (cases "priv_webview self"; cases "priv_onMessageDisposable self")
     (simp_all add: live_webviews_append creation_sequence_def fold_track_webview_contents)

lemma live_subscriptions_creation:
  assumes "map fst (live_subscriptions es) = option_list (priv_onMessageDisposable self)"
  shows "live_subscriptions (es @ creation_sequence self \<sigma> v d) = [(d, v)]"
proof (cases "priv_onMessageDisposable self")
  case None
  with assms have "live_subscriptions es = []" by simp
  with None show ?thesis
    by (cases "priv_webview self")
       (simp_all add: live_subscriptions_append creation_sequence_def
          fold_track_subscription_contents)
next
  case (Some old)
  with assms obtain x where "live_subscriptions es = [(old, x)]"
    by (cases "live_subscriptions es") auto
  with Some show ?thesis
    by (cases "priv_webview self")
       (simp_all add: live_subscriptions_append creation_sequence_def
          fold_track_subscription_contents)
qed

text \<open>Ownership is kept by every call and event, hence holds in every reachable state.\<close>

lemma owns_createWebview:
  assumes "owns self \<sigma>" and "priv_createWebview self \<sigma> = Inr (self', \<sigma>')"
  shows "owns self' \<sigma>'"
proof -
  let ?c = "if priv_html self = Some [] then self\<lparr>priv_html := None\<rparr> else self"
  from assms(2) have s: "self' = self\<lparr>priv_webview := Some (next_ref \<sigma>),
               priv_onMessageDisposable := Some (Suc (next_ref \<sigma>))\<rparr>"
    and w: "\<sigma>' = \<sigma>\<lparr>next_ref := Suc (Suc (next_ref \<sigma>)),
            effects := effects \<sigma> @ creation_sequence ?c \<sigma> (next_ref \<sigma>) (Suc (next_ref \<sigma>))\<rparr>"
    by (simp_all add: priv_createWebview_eq)
  from assms(1) have a: "live_webviews (effects \<sigma>) = option_list (priv_webview ?c)"
    and b: "map fst (live_subscriptions (effects \<sigma>)) = option_list (priv_onMessageDisposable ?c)"
    by (simp_all add: owns_def)
  show ?thesis
    unfolding owns_def s w
    by (simp add: live_webviews_creation [OF a] live_subscriptions_creation [OF b])
qed

lemma owns_initial:
  assumes "effects \<sigma> = []"
  shows "owns (WebviewWidget_new i) \<sigma>"
  using assms by (simp add: owns_def WebviewWidget_new_def live_webviews_def live_subscriptions_def)

lemma fold_track_subscription_fire:
  "fold track_subscription (map (\<lambda>_. FireOnMessage e) xs) live = live"
  by (induction xs) simp_all

lemma fold_track_webview_fire:
  "fold track_webview (map (\<lambda>_. FireOnMessage e) xs) live = live"
  by (induction xs) simp_all

lemma owns_invoke:
  assumes "owns self \<sigma>" and "invoke c self \<sigma> = Inr (self', \<sigma>')"
  shows "owns self' \<sigma>'"
proof (cases c)
  case Do_ngOnInit
  have "owns self (emit [RegisterWebview (get_id self)] \<sigma>)"
    using assms(1) by (simp add: owns_def emit_def live_webviews_append live_subscriptions_append)
  with assms(2) Do_ngOnInit show ?thesis
    by (auto simp: ngOnInit_def intro: owns_createWebview)
next
  case (Do_setHtml html)
  with assms show ?thesis
    by (cases "priv_webview self")
       (auto simp: setHtml_def owns_def emit_def live_webviews_append live_subscriptions_append)
next
  case Do_connection
  with assms show ?thesis
    by (auto simp: connection_def memoize_def owns_def Let_def split: option.splits)
next
  case Do_serverInfo
  with assms show ?thesis
    by (auto simp: serverInfo_def memoize_def owns_def Let_def split: option.splits)
next
  case Do_layout
  with assms show ?thesis
    by (cases "priv_webview self")
       (auto simp: layout_def owns_def emit_def live_webviews_append live_subscriptions_append)
next
  case (Do_sendMessage msg)
  with assms show ?thesis
    by (cases "priv_webview self")
       (auto simp: sendMessage_def owns_def emit_def live_webviews_append live_subscriptions_append)
next
  case Do_createWebview
  with assms show ?thesis by (auto intro: owns_createWebview)
next
  case (Env_connectionInfo p si)
  with assms show ?thesis by (auto simp: owns_def)
next
  case (Env_optionsChanged r opts)
  with assms show ?thesis by (auto simp: owns_def)
next
  case (Env_serverInfoChanged r si)
  with assms show ?thesis by (auto simp: owns_def)
next
  case (Env_theme t)
  with assms show ?thesis by (auto simp: owns_def)
next
  case (Env_posts v e)
  with assms show ?thesis
    by (auto simp: owns_def webview_posts_def emit_def live_webviews_append
        live_subscriptions_append fold_track_subscription_fire fold_track_webview_fire)
qed

lemma owns_invoke_all:
  assumes "owns self \<sigma>" and "invoke_all cs self \<sigma> = Inr (self', \<sigma>')"
  shows "owns self' \<sigma>'"
  using assms
proof (induction cs arbitrary: self \<sigma>)
  case Nil
  then show ?case by simp
next
  case (Cons c cs)
  then show ?case
    by (auto split: sum.splits dest: owns_invoke)
qed

lemma owns_reachable:
  assumes "effects \<sigma>0 = []" and "invoke_all cs (WebviewWidget_new i) \<sigma>0 = Inr (self, \<sigma>)"
  shows "owns self \<sigma>"
  using owns_initial [OF assms(1)] assms(2) by (rule owns_invoke_all)

text \<open>The sample live widget is the new widget after \<^verbatim>\<open>setHtml("x")\<close> and \<^verbatim>\<open>ngOnInit()\<close>.\<close>

lemma sample_live_reached:
  "invoke_all [Do_setHtml ''x'', Do_ngOnInit] sample_widget sample_world =
     Inr (sample_live_widget, sample_live_world)"
  by (simp add: sample_widget_def sample_world_def sample_live_widget_def sample_live_world_def
      WebviewWidget_new_def setHtml_def ngOnInit_def get_id_def priv_createWebview_eq
      creation_sequence_def emit_def)

text \<open>The sample blank widget is the new widget after \<^verbatim>\<open>setHtml("")\<close>.\<close>

lemma sample_blank_reached:
  "setHtml '''' sample_widget sample_world = Inr (sample_blank_widget, sample_world)"
  by (simp add: setHtml_def sample_blank_widget_def sample_widget_def WebviewWidget_new_def)

text \<open>No call and no event empties or overwrites a filled slot.\<close>

lemma memoize_connection_invoke:
  assumes "memoize_connection self = Some c" and "invoke x self \<sigma> = Inr (self', \<sigma>')"
  shows "memoize_connection self' = Some c"
  using assms
  by (cases x)
     (auto simp: ngOnInit_def priv_createWebview_eq setHtml_def layout_def sendMessage_def
        connection_def serverInfo_def memoize_def Let_def split: option.splits)

lemma memoize_serverInfo_invoke:
  assumes "memoize_serverInfo self = Some c" and "invoke x self \<sigma> = Inr (self', \<sigma>')"
  shows "memoize_serverInfo self' = Some c"
  using assms
  by (cases x)
     (auto simp: ngOnInit_def priv_createWebview_eq setHtml_def layout_def sendMessage_def
        connection_def serverInfo_def memoize_def Let_def split: option.splits)

lemma memoize_connection_invoke_all:
  assumes "memoize_connection self = Some c" and "invoke_all cs self \<sigma> = Inr (self', \<sigma>')"
  shows "memoize_connection self' = Some c"
  using assms
proof (induction cs arbitrary: self \<sigma>)
  case Nil
  then show ?case by simp
next
  case (Cons x cs)
  then show ?case
    by (auto split: sum.splits dest: memoize_connection_invoke)
qed

lemma memoize_serverInfo_invoke_all:
  assumes "memoize_serverInfo self = Some c" and "invoke_all cs self \<sigma> = Inr (self', \<sigma>')"
  shows "memoize_serverInfo self' = Some c"
  using assms
proof (induction cs arbitrary: self \<sigma>)
  case Nil
  then show ?case by simp
next
  case (Cons x cs)
  then show ?case
    by (auto split: sum.splits dest: memoize_serverInfo_invoke)
qed

subsection \<open>Main properties\<close>

text \<open>
  C7, as stated, fails for the empty string: \<^verbatim>\<open>setHtml("")\<close> on a widget without a
  surface caches a string that the test \<^verbatim>\<open>if (this._html)\<close> of \<^verbatim>\<open>_createWebview()\<close>
  rejects, so the contents of the new surface are never set.
\<close>

theorem setHtml_empty_counterexample:
  "outcome_effects (invoke_all [Do_setHtml '''', Do_createWebview] sample_widget sample_world) =
     Inr [CreateInstance 0 EDITOR_PART \<lparr>allowScripts = True\<rparr>, MountTo 0 ''div'',
          OnMessage 0 1, Style 0 ''dark'', Layout 0]
   \<and> count_list [CreateInstance 0 EDITOR_PART \<lparr>allowScripts = True\<rparr>, MountTo 0 ''div'',
          OnMessage 0 1, Style 0 ''dark'', Layout 0] (SetContents 0 '''') = 0"
  by (simp add: outcome_effects_def sample_widget_def sample_world_def WebviewWidget_new_def
      setHtml_def priv_createWebview_eq creation_sequence_def)

text \<open>
  C7, amended.  Calling \<^verbatim>\<open>setHtml(h)\<close> with a non-empty \<open>h\<close> while no content surface
  exists causes no effect by itself; creating the surface afterwards (by
  \<^verbatim>\<open>_createWebview()\<close>, or by \<^verbatim>\<open>ngOnInit()\<close>, which registers the widget first) sets the
  contents of the new surface to \<open>h\<close> exactly once, after creation, mounting,
  subscription and styling, and a layout of the surface follows.
\<close>

theorem setHtml_before_creation:
  assumes "priv_webview self = None" and "h \<noteq> []"
  shows "outcome_effects (invoke_all [Do_setHtml h, Do_createWebview] self \<sigma>) =
           Inr (effects \<sigma> @
                map DisposeSubscription (option_list (priv_onMessageDisposable self)) @
                [CreateInstance (next_ref \<sigma>) EDITOR_PART \<lparr>allowScripts = True\<rparr>,
                 MountTo (next_ref \<sigma>) (nativeElement \<sigma>),
                 OnMessage (next_ref \<sigma>) (Suc (next_ref \<sigma>)),
                 Style (next_ref \<sigma>) (currentTheme \<sigma>),
                 SetContents (next_ref \<sigma>) h,
                 Layout (next_ref \<sigma>)])
         \<and> outcome_effects (invoke_all [Do_setHtml h, Do_ngOnInit] self \<sigma>) =
           Inr (effects \<sigma> @ [RegisterWebview (priv_id self)] @
                map DisposeSubscription (option_list (priv_onMessageDisposable self)) @
                [CreateInstance (next_ref \<sigma>) EDITOR_PART \<lparr>allowScripts = True\<rparr>,
                 MountTo (next_ref \<sigma>) (nativeElement \<sigma>),
                 OnMessage (next_ref \<sigma>) (Suc (next_ref \<sigma>)),
                 Style (next_ref \<sigma>) (currentTheme \<sigma>),
                 SetContents (next_ref \<sigma>) h,
                 Layout (next_ref \<sigma>)])"
  using assms
  by (simp add: outcome_effects_def setHtml_def ngOnInit_def get_id_def priv_createWebview_eq
      creation_sequence_def emit_def)

text \<open>The HTML \<^verbatim>\<open>x\<close> set on a new widget, then the surface created.\<close>

theorem setHtml_before_creation_witness:
  "outcome_effects (invoke_all [Do_setHtml ''x'', Do_createWebview] sample_widget sample_world) =
     Inr [CreateInstance 0 EDITOR_PART \<lparr>allowScripts = True\<rparr>, MountTo 0 ''div'',
          OnMessage 0 1, Style 0 ''dark'', SetContents 0 ''x'', Layout 0]"
  using setHtml_before_creation [of sample_widget "''x''" sample_world]
  by (simp add: sample_widget_def sample_world_def WebviewWidget_new_def)

text \<open>
  C8, as stated, fails for a cached empty string: the spec's sequence reapplies the
  cached HTML, but the test \<^verbatim>\<open>if (this._html)\<close> of \<^verbatim>\<open>_createWebview()\<close> rejects the empty
  string, and the contents of the new surface are not set.
\<close>

theorem priv_createWebview_blank_counterexample:
  "outcome_effects (priv_createWebview sample_blank_widget sample_world) =
     Inr [CreateInstance 0 EDITOR_PART \<lparr>allowScripts = True\<rparr>, MountTo 0 ''div'',
          OnMessage 0 1, Style 0 ''dark'', Layout 0]
   \<and> creation_sequence sample_blank_widget sample_world 0 1 =
     [CreateInstance 0 EDITOR_PART \<lparr>allowScripts = True\<rparr>, MountTo 0 ''div'',
      OnMessage 0 1, Style 0 ''dark'', SetContents 0 '''', Layout 0]
   \<and> outcome_effects (priv_createWebview sample_blank_widget sample_world) \<noteq>
     Inr (effects sample_world @ creation_sequence sample_blank_widget sample_world 0 1)"
  by (simp add: outcome_effects_def priv_createWebview_eq creation_sequence_def
      sample_blank_widget_def sample_widget_def sample_world_def WebviewWidget_new_def)

text \<open>
  C8, amended.  Every \<^verbatim>\<open>_createWebview()\<close> succeeds and adds to the effects exactly the
  creation sequence of the spec, with the cached HTML counting as present only when
  it is not the empty string (a cached empty string is not reapplied): the existing
  surface and the existing subscription are disposed (when they exist) before the new
  surface is instantiated, which is then mounted, subscribed to, styled with the
  current theme, given the cached non-empty HTML and laid out.  Where the widget owns
  what is alive, as it does in every state it can reach, afterwards the new surface
  is the only live surface and the new subscription the only live subscription: a
  message posted by the new surface is fired once on the widget's \<^verbatim>\<open>onMessage\<close>, one
  posted by the replaced surface is not fired at all.
\<close>

theorem priv_createWebview_replaces:
  "(let v = next_ref \<sigma>; d = Suc (next_ref \<sigma>);
        cached = (if priv_html self = Some [] then self\<lparr>priv_html := None\<rparr> else self);
        self' = self\<lparr>priv_webview := Some v, priv_onMessageDisposable := Some d\<rparr>;
        \<sigma>' = \<sigma>\<lparr>next_ref := Suc d, effects := effects \<sigma> @ creation_sequence cached \<sigma> v d\<rparr>
    in priv_createWebview self \<sigma> = Inr (self', \<sigma>')
       \<and> (owns self \<sigma> \<longrightarrow>
            owns self' \<sigma>'
            \<and> live_webviews (effects \<sigma>') = [v]
            \<and> live_subscriptions (effects \<sigma>') = [(d, v)]
            \<and> (\<forall>e. effects (webview_posts v e \<sigma>') = effects \<sigma>' @ [FireOnMessage e])
            \<and> (\<forall>old e. priv_webview self = Some old \<longrightarrow>
                   effects (webview_posts old e \<sigma>') = effects \<sigma>')))"
proof -
  let ?v = "next_ref \<sigma>"
  let ?d = "Suc (next_ref \<sigma>)"
  let ?c = "if priv_html self = Some [] then self\<lparr>priv_html := None\<rparr> else self"
  let ?self' = "self\<lparr>priv_webview := Some ?v, priv_onMessageDisposable := Some ?d\<rparr>"
  let ?\<sigma>' = "\<sigma>\<lparr>next_ref := Suc ?d, effects := effects \<sigma> @ creation_sequence ?c \<sigma> ?v ?d\<rparr>"
  have run: "priv_createWebview self \<sigma> = Inr (?self', ?\<sigma>')"
    by (simp add: priv_createWebview_eq)
  have inv: "owns ?self' ?\<sigma>'" if "owns self \<sigma>"
    using that run by (rule owns_createWebview)
  have lw: "live_webviews (effects ?\<sigma>') = [?v]" if "owns self \<sigma>"
  proof -
    from that have "live_webviews (effects \<sigma>) = option_list (priv_webview ?c)"
      by (simp add: owns_def)
    then show ?thesis by (simp add: live_webviews_creation)
  qed
  have ls: "live_subscriptions (effects ?\<sigma>') = [(?d, ?v)]" if "owns self \<sigma>"
  proof -
    from that
    have "map fst (live_subscriptions (effects \<sigma>)) = option_list (priv_onMessageDisposable ?c)"
      by (simp add: owns_def)
    then show ?thesis by (simp add: live_subscriptions_creation)
  qed
  have new: "effects (webview_posts ?v e ?\<sigma>') = effects ?\<sigma>' @ [FireOnMessage e]"
    if "owns self \<sigma>" for e
    using ls [OF that] by (simp add: webview_posts_def emit_def)
  have old: "effects (webview_posts old e ?\<sigma>') = effects ?\<sigma>'"
    if "owns self \<sigma>" and "priv_webview self = Some old" for old e
  proof -
    from that have "old < ?v" by (simp add: owns_def)
    with ls [OF that(1)] show ?thesis by (simp add: webview_posts_def emit_def)
  qed
  show ?thesis
    unfolding Let_def using run inv lw ls new old by blast
qed

text \<open>The re-creation of the surface of a widget that is live and has HTML cached.\<close>

theorem priv_createWebview_replaces_witness:
  "owns sample_live_widget sample_live_world
   \<and> outcome_effects (priv_createWebview sample_live_widget sample_live_world) =
       Inr (effects sample_live_world @
            [DisposeWebview 0, DisposeSubscription 1,
             CreateInstance 2 EDITOR_PART \<lparr>allowScripts = True\<rparr>, MountTo 2 ''div'',
             OnMessage 2 3, Style 2 ''dark'', SetContents 2 ''x'', Layout 2])
   \<and> live_webviews (effects sample_live_world @
            [DisposeWebview 0, DisposeSubscription 1,
             CreateInstance 2 EDITOR_PART \<lparr>allowScripts = True\<rparr>, MountTo 2 ''div'',
             OnMessage 2 3, Style 2 ''dark'', SetContents 2 ''x'', Layout 2]) = [2]
   \<and> live_subscriptions (effects sample_live_world @
            [DisposeWebview 0, DisposeSubscription 1,
             CreateInstance 2 EDITOR_PART \<lparr>allowScripts = True\<rparr>, MountTo 2 ''div'',
             OnMessage 2 3, Style 2 ''dark'', SetContents 2 ''x'', Layout 2]) = [(3, 2)]"
proof -
  have o: "owns sample_live_widget sample_live_world"
    by (simp add: owns_def sample_live_widget_def sample_live_world_def sample_world_def
        live_webviews_def live_subscriptions_def)
  have c: "creation_sequence sample_live_widget sample_live_world 2 3 =
            [DisposeWebview 0, DisposeSubscription 1,
             CreateInstance 2 EDITOR_PART \<lparr>allowScripts = True\<rparr>, MountTo 2 ''div'',
             OnMessage 2 3, Style 2 ''dark'', SetContents 2 ''x'', Layout 2]"
    by (simp add: creation_sequence_def sample_live_widget_def sample_live_world_def
        sample_world_def)
  have n: "next_ref sample_live_world = 2"
    by (simp add: sample_live_world_def)
  have h: "priv_html sample_live_widget \<noteq> Some []"
    by (simp add: sample_live_widget_def)
  from priv_createWebview_replaces [of sample_live_world sample_live_widget] o
  show ?thesis
    by (simp add: Let_def n h c outcome_effects_def)
qed

text \<open>
  C9.  \<^verbatim>\<open>sendMessage(m)\<close> forwards \<open>m\<close> to the content surface if there is one; if there
  is none it does not fail, and leaves the widget and the world as they were.
\<close>

theorem sendMessage_forwards:
  "(priv_webview self = Some v \<longrightarrow>
      sendMessage m self \<sigma> = Inr (self, \<sigma>\<lparr>effects := effects \<sigma> @ [SendMessage v m]\<rparr>))
   \<and> (priv_webview self = None \<longrightarrow> sendMessage m self \<sigma> = Inr (self, \<sigma>))"
  by (simp add: sendMessage_def emit_def)

text \<open>A message sent by a live widget, and one sent by a widget without a surface.\<close>

theorem sendMessage_forwards_witness:
  "sendMessage ''ping'' sample_live_widget sample_live_world =
     Inr (sample_live_widget,
          sample_live_world\<lparr>effects := effects sample_live_world @ [SendMessage 0 ''ping'']\<rparr>)
   \<and> sendMessage ''ping'' sample_widget sample_world = Inr (sample_widget, sample_world)"
  using sendMessage_forwards [of sample_live_widget 0 "''ping''" sample_live_world]
    sendMessage_forwards [of sample_widget _ "''ping''" sample_world]
  by (simp add: sample_live_widget_def sample_widget_def WebviewWidget_new_def)

text \<open>
  C10, as stated, fails when the connection changes in place: the cached connection
  holds the reference to the options object of the profile, and the cached server
  info is the reference to the server info object, so a later access shows the
  changed contents and not those of the first access.
\<close>

theorem connection_in_place_counterexample:
  "connection_twice [Env_optionsChanged 10 [(''database'', ''tempdb'')]]
       sample_widget sample_world =
     Inr ((''MSSQL'', ''c1'', Some [(''database'', ''master'')]),
          (''MSSQL'', ''c1'', Some [(''database'', ''tempdb'')]))
   \<and> serverInfo_twice [Env_serverInfoChanged 20 ''v14.1''] sample_widget sample_world =
     Inr (Some ''v14'', Some ''v14.1'')"
  by (simp add: connection_twice_def serverInfo_twice_def connection_def serverInfo_def
      memoize_def connection_getter_def serverInfo_getter_def connection_contents_def
      serverInfo_contents_def sample_widget_def WebviewWidget_new_def sample_world_def
      sample_profile_def Let_def)

text \<open>
  C10, amended.  The first access to \<^verbatim>\<open>connection\<close> builds an object from the provider
  name and the id of the profile the dashboard service holds at that moment and the
  reference to that profile's options object; the first access to \<^verbatim>\<open>serverInfo\<close>
  yields the reference to the server info object held at that moment.  After any
  history of calls and events, a move of the dashboard service to another profile
  among them, a further access returns the same object: the same two strings and the
  same references.  What is read through the references is the present contents of
  the objects, changes made to them in place included.
\<close>

theorem connection_serverInfo_cached:
  "(memoize_connection self = None \<and>
    invoke_all cs (snd (connection self \<sigma>)) \<sigma> = Inr (self', \<sigma>') \<longrightarrow>
      fst (connection self \<sigma>) =
        \<lparr> conn_providerName = providerName (connectionProfile \<sigma>),
          connectionId = profileId (connectionProfile \<sigma>),
          conn_options = options (connectionProfile \<sigma>) \<rparr>
      \<and> fst (connection self' \<sigma>') = fst (connection self \<sigma>)
      \<and> connection_contents \<sigma>' (fst (connection self' \<sigma>')) =
          (providerName (connectionProfile \<sigma>), profileId (connectionProfile \<sigma>),
           options_store \<sigma>' (options (connectionProfile \<sigma>))))
   \<and> (memoize_serverInfo self = None \<and>
      invoke_all cs (snd (serverInfo self \<sigma>)) \<sigma> = Inr (self', \<sigma>') \<longrightarrow>
      fst (serverInfo self \<sigma>) = connectionInfo_serverInfo \<sigma>
      \<and> fst (serverInfo self' \<sigma>') = fst (serverInfo self \<sigma>)
      \<and> serverInfo_contents \<sigma>' (fst (serverInfo self' \<sigma>')) =
          serverInfo_store \<sigma>' (connectionInfo_serverInfo \<sigma>))"
proof -
  have conn: "fst (connection self \<sigma>) =
        \<lparr> conn_providerName = providerName (connectionProfile \<sigma>),
          connectionId = profileId (connectionProfile \<sigma>),
          conn_options = options (connectionProfile \<sigma>) \<rparr>
      \<and> fst (connection self' \<sigma>') = fst (connection self \<sigma>)
      \<and> connection_contents \<sigma>' (fst (connection self' \<sigma>')) =
          (providerName (connectionProfile \<sigma>), profileId (connectionProfile \<sigma>),
           options_store \<sigma>' (options (connectionProfile \<sigma>)))"
    if first: "memoize_connection self = None"
      and later: "invoke_all cs (snd (connection self \<sigma>)) \<sigma> = Inr (self', \<sigma>')"
  proof -
    from first have v: "fst (connection self \<sigma>) = connection_getter self \<sigma>"
      and slot: "memoize_connection (snd (connection self \<sigma>)) = Some (connection_getter self \<sigma>)"
      by (simp_all add: connection_def memoize_def Let_def)
    from memoize_connection_invoke_all [OF slot later]
    have "fst (connection self' \<sigma>') = connection_getter self \<sigma>"
      by (simp add: connection_def memoize_def)
    with v show ?thesis
      by (simp add: connection_getter_def connection_contents_def Let_def)
  qed
  have info: "fst (serverInfo self \<sigma>) = connectionInfo_serverInfo \<sigma>
      \<and> fst (serverInfo self' \<sigma>') = fst (serverInfo self \<sigma>)
      \<and> serverInfo_contents \<sigma>' (fst (serverInfo self' \<sigma>')) =
          serverInfo_store \<sigma>' (connectionInfo_serverInfo \<sigma>)"
    if first: "memoize_serverInfo self = None"
      and later: "invoke_all cs (snd (serverInfo self \<sigma>)) \<sigma> = Inr (self', \<sigma>')"
  proof -
    from first have v: "fst (serverInfo self \<sigma>) = serverInfo_getter self \<sigma>"
      and slot: "memoize_serverInfo (snd (serverInfo self \<sigma>)) = Some (serverInfo_getter self \<sigma>)"
      by (simp_all add: serverInfo_def memoize_def Let_def)
    from memoize_serverInfo_invoke_all [OF slot later]
    have "fst (serverInfo self' \<sigma>') = serverInfo_getter self \<sigma>"
      by (simp add: serverInfo_def memoize_def)
    with v show ?thesis
      by (simp add: serverInfo_getter_def serverInfo_contents_def)
  qed
  from conn info show ?thesis by blast
qed

text \<open>
  Both properties read on a new widget, and read again after the dashboard service
  has moved from connection \<^verbatim>\<open>c1\<close> to \<^verbatim>\<open>c2\<close> and the options object of \<^verbatim>\<open>c1\<close> has been
  changed in place: the object returned is that of \<^verbatim>\<open>c1\<close>, its options are the changed
  ones.
\<close>

theorem connection_serverInfo_cached_witness:
  "fst (connection sample_widget sample_world) =
     \<lparr> conn_providerName = ''MSSQL'', connectionId = ''c1'', conn_options = 10 \<rparr>
   \<and> fst (connection (snd (connection sample_widget sample_world)) sample_moved_world) =
     \<lparr> conn_providerName = ''MSSQL'', connectionId = ''c1'', conn_options = 10 \<rparr>
   \<and> connection_contents sample_moved_world
        (fst (connection (snd (connection sample_widget sample_world)) sample_moved_world)) =
     (''MSSQL'', ''c1'', Some [(''database'', ''tempdb'')])
   \<and> fst (serverInfo sample_widget sample_world) = 20
   \<and> fst (serverInfo (snd (serverInfo sample_widget sample_world)) sample_moved_world) = 20
   \<and> serverInfo_contents sample_moved_world
        (fst (serverInfo (snd (serverInfo sample_widget sample_world)) sample_moved_world)) =
     Some ''v14''"
proof -
  have first: "memoize_connection sample_widget = None" "memoize_serverInfo sample_widget = None"
    by (simp_all add: sample_widget_def WebviewWidget_new_def)
  have later: "invoke_all sample_history self sample_world = Inr (self, sample_moved_world)"
    for self
    by (simp add: sample_history_def sample_moved_world_def)
  have now: "providerName (connectionProfile sample_world) = ''MSSQL''"
    "profileId (connectionProfile sample_world) = ''c1''"
    "options (connectionProfile sample_world) = 10"
    "connectionInfo_serverInfo sample_world = 20"
    by (simp_all add: sample_world_def sample_profile_def)
  have store: "options_store sample_moved_world 10 = Some [(''database'', ''tempdb'')]"
    "serverInfo_store sample_moved_world 20 = Some ''v14''"
    by (simp_all add: sample_moved_world_def sample_world_def)
  from connection_serverInfo_cached
         [of sample_widget sample_history sample_world
             "snd (connection sample_widget sample_world)" sample_moved_world]
       connection_serverInfo_cached
         [of sample_widget sample_history sample_world
             "snd (serverInfo sample_widget sample_world)" sample_moved_world]
  show ?thesis
    by (auto simp: first later now store)
qed

end
